theory Spec2Isabelle
  imports Main "HOL-Library.AList"
begin

section \<open>The computation graph of \<^verbatim>\<open>graph_builder/graph/graph.py\<close>\<close>

text \<open>
  The source defines three classes: \<^verbatim>\<open>Node\<close>, \<^verbatim>\<open>Operator(Node)\<close> and
  \<^verbatim>\<open>Variable(Node)\<close>. Operators and Variables refer to each other, and every lookup
  is by object identity (\<^verbatim>\<open>is\<close>), so objects live in a store and are named by
  references. A Python reference always denotes an object, hence the store is a total
  function from references to objects.

  A Python \<^verbatim>\<open>dict\<close> keeps insertion order, and \<^verbatim>\<open>get_input_name\<close> returns the first
  slot it meets, so \<^verbatim>\<open>inputs\<close> and \<^verbatim>\<open>outputs\<close> are association lists:
  \<^verbatim>\<open>d[k] = v\<close> is \<^const>\<open>AList.update\<close> (in place for a present key, at the end for a
  new one) and \<^verbatim>\<open>d.pop(k)\<close> is \<^const>\<open>AList.delete\<close> after a lookup.
\<close>

subsection \<open>Data\<close>

type_synonym Axis = string

text \<open>
  Modelled from the spec: the axis-order trait (\<^verbatim>\<open>graph_builder.graph.variables.attributes\<close>,
  not part of the source at hand). The spec describes it as a tag that defines an ordered
  list of named axes; the source reads its class attributes \<^verbatim>\<open>ndim\<close> and \<^verbatim>\<open>axes\<close>.
\<close>

record AxisOrder =
  ndim :: nat
  axes :: "Axis list"

datatype Attribute = AxisOrderAttr AxisOrder | OtherAttr string

datatype pyval = PyStr string | PyInt int

type_synonym op_ref = nat
type_synonym var_ref = nat

record Node =
  parameters :: "(string \<rightharpoonup> pyval) option"
  attributes :: "Attribute set"

record Operator = Node +
  name :: string
  inputs :: "(string \<times> var_ref) list"
  outputs :: "(string \<times> var_ref) list"

record Variable = Node +
  shape :: "int list"
  input_to :: "op_ref set"
  output_from :: "op_ref option"
  axis_order :: AxisOrder

record heap =
  ops :: "op_ref \<Rightarrow> Operator"
  vars :: "var_ref \<Rightarrow> Variable"

text \<open>
  The exceptions the source can raise. Both the reverse lookups and \<^verbatim>\<open>append_output\<close>
  raise Python's \<^verbatim>\<open>KeyError\<close>; the tag records which \<^verbatim>\<open>raise\<close> statement (or which
  built-in container operation) it came from.
\<close>

datatype key_error = NotInput | NotOutput | AlreadyOutput | MissingKey

datatype error = KeyError key_error | UnboundLocalError | AssertionError | TypeError

text \<open>
  A method that mutates the store either returns or raises; in both cases the store
  goes on existing, with whatever the method wrote before it stopped.
\<close>

datatype outcome = Return heap | Raise error heap

definition upd_op :: "heap \<Rightarrow> op_ref \<Rightarrow> (Operator \<Rightarrow> Operator) \<Rightarrow> heap" where
  "upd_op h r f = h\<lparr>ops := (ops h)(r := f (ops h r))\<rparr>"

definition upd_var :: "heap \<Rightarrow> var_ref \<Rightarrow> (Variable \<Rightarrow> Variable) \<Rightarrow> heap" where
  "upd_var h r f = h\<lparr>vars := (vars h)(r := f (vars h r))\<rparr>"

subsection \<open>Python containers\<close>

definition dict_get :: "('k \<times> 'v) list \<Rightarrow> 'k \<Rightarrow> 'v \<Rightarrow> 'v" where
  "dict_get d k dflt = (case map_of d k of None \<Rightarrow> dflt | Some v \<Rightarrow> v)"

definition dict_pop :: "'k \<Rightarrow> ('k \<times> 'v) list \<Rightarrow> error + ('v \<times> ('k \<times> 'v) list)" where
  "dict_pop k d =
     (case map_of d k of
        None \<Rightarrow> Inl (KeyError MissingKey)
      | Some v \<Rightarrow> Inr (v, AList.delete k d))"

definition py_contains :: "(string \<rightharpoonup> pyval) option \<Rightarrow> string \<Rightarrow> error + bool" where
  \<comment> \<open>\<^verbatim>\<open>key in d\<close>; on \<^verbatim>\<open>None\<close> Python raises TypeError.\<close>
  "py_contains d k = (case d of None \<Rightarrow> Inl TypeError | Some m \<Rightarrow> Inr (m k \<noteq> None))"

definition py_getitem :: "(string \<rightharpoonup> pyval) option \<Rightarrow> string \<Rightarrow> error + pyval" where
  \<comment> \<open>\<^verbatim>\<open>d[key]\<close>; on \<^verbatim>\<open>None\<close> Python raises TypeError.\<close>
  "py_getitem d k =
     (case d of
        None \<Rightarrow> Inl TypeError
      | Some m \<Rightarrow> (case m k of None \<Rightarrow> Inl (KeyError MissingKey) | Some v \<Rightarrow> Inr v))"

subsection \<open>Constructors\<close>

definition Node_init :: "Attribute list \<Rightarrow> (string \<rightharpoonup> pyval) option \<Rightarrow> Node" where
  \<comment> \<open>the first argument is the class-level \<^verbatim>\<open>attributes\<close>, copied into a set\<close>
  "Node_init cls_attributes ps =
     \<lparr>parameters = (if ps \<noteq> None then ps else Some Map.empty),
      attributes = set cls_attributes\<rparr>"

definition Operator_init :: "string \<Rightarrow> (string \<rightharpoonup> pyval) option \<Rightarrow> Operator" where
  "Operator_init nm ps =
     (let self = Node_init [] ps;
          self = self\<lparr>parameters := ps\<rparr>
      in \<lparr>parameters = parameters self, attributes = attributes self,
          name = nm, inputs = [], outputs = []\<rparr>)"

definition Variable_init :: "int list \<Rightarrow> AxisOrder \<Rightarrow> error + Variable" where
  "Variable_init sh ao =
     (let self = Node_init [] None;
          v = \<lparr>parameters = parameters self,
               attributes = insert (AxisOrderAttr ao) (attributes self),
               shape = sh, input_to = {}, output_from = None, axis_order = ao\<rparr>
      in if ndim ao = length sh then Inr v else Inl AssertionError)"

definition Variable_name :: "Variable \<Rightarrow> error + pyval" where
  "Variable_name self =
     (case py_contains (parameters self) ''name'' of
        Inl e \<Rightarrow> Inl e
      | Inr True \<Rightarrow> py_getitem (parameters self) ''name''
      | Inr False \<Rightarrow> Inr (PyStr ''''))"

definition Variable_ndim :: "Variable \<Rightarrow> nat" where
  "Variable_ndim self = length (shape self)"

subsection \<open>The link protocol of \<^verbatim>\<open>Operator\<close>\<close>

text \<open>
  The \<^verbatim>\<open>for ... else\<close> loop of \<^verbatim>\<open>get_input_name\<close> and \<^verbatim>\<open>get_output_name\<close>. The third
  argument is the loop variable \<^verbatim>\<open>name\<close> as bound so far (\<^const>\<open>None\<close>: not yet bound).
  \<^const>\<open>Inr\<close> is the \<^verbatim>\<open>return name\<close> inside the loop; \<^const>\<open>Inl\<close> is the \<^verbatim>\<open>else\<close>
  branch, reached when the items are exhausted, with the binding of \<^verbatim>\<open>name\<close> at that
  point.
\<close>

fun for_items :: "(string \<times> var_ref) list \<Rightarrow> var_ref \<Rightarrow> string option \<Rightarrow> string option + string" where
  "for_items [] var bound = Inl bound"
| "for_items ((nm, v) # rest) var bound =
     (if v \<noteq> var then for_items rest var (Some nm) else Inr nm)"

text \<open>
  The \<^verbatim>\<open>else\<close> branch formats \<^verbatim>\<open>name\<close> into the message of the \<^verbatim>\<open>KeyError\<close> it is about
  to raise. When the loop body never ran, \<^verbatim>\<open>name\<close> is an unbound local and the
  formatting itself raises \<^verbatim>\<open>UnboundLocalError\<close>.
\<close>

definition get_input_name :: "heap \<Rightarrow> op_ref \<Rightarrow> var_ref \<Rightarrow> error + string" where
  "get_input_name h self var =
     (case for_items (inputs (ops h self)) var None of
        Inr nm \<Rightarrow> Inr nm
      | Inl None \<Rightarrow> Inl UnboundLocalError
      | Inl (Some nm) \<Rightarrow> Inl (KeyError NotInput))"

definition get_output_name :: "heap \<Rightarrow> op_ref \<Rightarrow> var_ref \<Rightarrow> error + string" where
  "get_output_name h self var =
     (case for_items (outputs (ops h self)) var None of
        Inr nm \<Rightarrow> Inr nm
      | Inl None \<Rightarrow> Inl UnboundLocalError
      | Inl (Some nm) \<Rightarrow> Inl (KeyError NotOutput))"

definition append_input :: "heap \<Rightarrow> op_ref \<Rightarrow> string \<Rightarrow> var_ref \<Rightarrow> outcome" where
  "append_input h self nm var =
     (let h1 = upd_op h self (\<lambda>p. p\<lparr>inputs := AList.update nm var (inputs p)\<rparr>);
          h2 = upd_var h1 var (\<lambda>v. v\<lparr>input_to := insert self (input_to v)\<rparr>)
      in Return h2)"

definition remove_input :: "heap \<Rightarrow> op_ref \<Rightarrow> var_ref \<Rightarrow> outcome" where
  "remove_input h self var =
     (case get_input_name h self var of
        Inl e \<Rightarrow> Raise e h
      | Inr nm \<Rightarrow>
          (case dict_pop nm (inputs (ops h self)) of
             Inl e \<Rightarrow> Raise e h
           | Inr (popped, d) \<Rightarrow>
               (let h1 = upd_op h self (\<lambda>p. p\<lparr>inputs := d\<rparr>)
                in if self \<in> input_to (vars h1 var)
                   then Return (upd_var h1 var (\<lambda>v. v\<lparr>input_to := input_to v - {self}\<rparr>))
                   else Raise (KeyError MissingKey) h1)))"

definition replace_input :: "heap \<Rightarrow> op_ref \<Rightarrow> var_ref \<Rightarrow> var_ref \<Rightarrow> outcome" where
  "replace_input h self v_old v_new =
     (case get_input_name h self v_old of
        Inl e \<Rightarrow> Raise e h
      | Inr nm \<Rightarrow>
          (case remove_input h self v_old of
             Raise e h1 \<Rightarrow> Raise e h1
           | Return h1 \<Rightarrow> append_input h1 self nm v_new))"

definition append_output :: "heap \<Rightarrow> op_ref \<Rightarrow> string \<Rightarrow> var_ref \<Rightarrow> outcome" where
  "append_output h self nm var =
     (if output_from (vars h var) \<noteq> None then Raise (KeyError AlreadyOutput) h
      else
        (let h1 = upd_op h self (\<lambda>p. p\<lparr>outputs := AList.update nm var (outputs p)\<rparr>);
             h2 = upd_var h1 var (\<lambda>v. v\<lparr>output_from := Some self\<rparr>)
         in Return h2))"

definition remove_output :: "heap \<Rightarrow> op_ref \<Rightarrow> var_ref \<Rightarrow> outcome" where
  "remove_output h self var =
     (case get_output_name h self var of
        Inl e \<Rightarrow> Raise e h
      | Inr nm \<Rightarrow>
          (case dict_pop nm (outputs (ops h self)) of
             Inl e \<Rightarrow> Raise e h
           | Inr (var', d) \<Rightarrow>
               (let h1 = upd_op h self (\<lambda>p. p\<lparr>outputs := d\<rparr>)
                in Return (upd_var h1 var' (\<lambda>v. v\<lparr>output_from := None\<rparr>)))))"

definition replace_output :: "heap \<Rightarrow> op_ref \<Rightarrow> var_ref \<Rightarrow> var_ref \<Rightarrow> outcome" where
  "replace_output h self v_old v_new =
     (case get_output_name h self v_old of
        Inl e \<Rightarrow> Raise e h
      | Inr nm \<Rightarrow>
          (case remove_output h self v_old of
             Raise e h1 \<Rightarrow> Raise e h1
           | Return h1 \<Rightarrow> append_output h1 self nm v_new))"

subsection \<open>Shape and axis order of \<^verbatim>\<open>Variable\<close>\<close>

text \<open>
  Modelled from the spec: \<^verbatim>\<open>AxisOrder.get_shape_dict\<close>, which the source calls and does
  not define. The spec describes it as the trait's mapping from axis name to size for
  the variable's current shape: the axes paired with the shape entries in order and
  collected into a dictionary (\<^verbatim>\<open>dict(zip(axes, shape))\<close>).
\<close>

definition get_shape_dict :: "AxisOrder \<Rightarrow> Variable \<Rightarrow> (Axis \<times> int) list" where
  "get_shape_dict cls var =
     fold (\<lambda>(axis, sz) d. AList.update axis sz d) (zip (axes cls) (shape var)) []"

definition shape_dict :: "Variable \<Rightarrow> (Axis \<times> int) list" where
  "shape_dict self = get_shape_dict (axis_order self) self"

text \<open>
  The loop of assertions in \<^verbatim>\<open>change_axis_order\<close>: \<^const>\<open>False\<close> when some
  \<^verbatim>\<open>assert size == 1\<close> fails.
\<close>

fun dropped_axes_ok :: "(Axis \<times> int) list \<Rightarrow> Axis list \<Rightarrow> bool" where
  "dropped_axes_ok [] new_axes = True"
| "dropped_axes_ok ((axis, sz) # rest) new_axes =
     (if axis \<notin> set new_axes
      then (if sz = 1 then dropped_axes_ok rest new_axes else False)
      else dropped_axes_ok rest new_axes)"

definition change_axis_order :: "heap \<Rightarrow> var_ref \<Rightarrow> AxisOrder \<Rightarrow> outcome" where
  "change_axis_order h self new_order =
     (let current_shape_dict = shape_dict (vars h self);
          new_shape = map (\<lambda>axis. dict_get current_shape_dict axis 1) (axes new_order)
      in if dropped_axes_ok current_shape_dict (axes new_order)
         then Return (upd_var h self (\<lambda>v. v\<lparr>axis_order := new_order, shape := new_shape\<rparr>))
         else Raise AssertionError h)"

subsection \<open>Bidirectional consistency of inputs\<close>

text \<open>
  The invariant of the data model: an operator is in the \<^verbatim>\<open>input_to\<close> set of every
  variable that one of its input slots holds.
\<close>

definition inputs_consistent :: "heap \<Rightarrow> bool" where
  "inputs_consistent h \<longleftrightarrow>
     (\<forall>op nm v. (nm, v) \<in> set (inputs (ops h op)) \<longrightarrow> op \<in> input_to (vars h v))"

subsection \<open>Reading an outcome\<close>

fun heap_of :: "outcome \<Rightarrow> heap" where
  "heap_of (Return h) = h"
| "heap_of (Raise e h) = h"

fun raised :: "outcome \<Rightarrow> error option" where
  "raised (Return h) = None"
| "raised (Raise e h) = Some e"

subsection \<open>Concrete stores\<close>

text \<open>
  A store of freshly constructed objects with no links: every operator is
  \<^verbatim>\<open>Operator("op")\<close> and every variable is the scalar \<^verbatim>\<open>Variable([], order)\<close> for an
  axis order without axes. The graphs used as examples below are built from it with
  the methods of the link protocol.
\<close>

definition scalar :: Variable where
  "scalar = \<lparr>parameters = Some Map.empty, attributes = {AxisOrderAttr \<lparr>ndim = 0, axes = []\<rparr>},
      shape = [], input_to = {}, output_from = None, axis_order = \<lparr>ndim = 0, axes = []\<rparr>\<rparr>"

definition unlinked :: heap where
  "unlinked = \<lparr>ops = (\<lambda>r. Operator_init ''op'' None), vars = (\<lambda>r. scalar)\<rparr>"

text \<open>Operator 3 has appended variable 7 as its output \<^verbatim>\<open>y\<close>.\<close>

definition linked_y :: heap where
  "linked_y = heap_of (append_output unlinked 3 ''y'' 7)"

text \<open>Operator 2 has appended variable 5 as its input \<^verbatim>\<open>x\<close>.\<close>

definition occupied_x :: heap where
  "occupied_x = heap_of (append_input unlinked 2 ''x'' 5)"

text \<open>Operator 2 holds variable 5 in two input slots, \<^verbatim>\<open>x\<close> and \<^verbatim>\<open>x2\<close>.\<close>

definition doubled :: heap where
  "doubled = heap_of (append_input occupied_x 2 ''x2'' 5)"

text \<open>Operator 3 produces variable 7 (slot \<^verbatim>\<open>y\<close>) and operator 4 produces variable 8 (slot \<^verbatim>\<open>z\<close>).\<close>

definition two_producers :: heap where
  "two_producers = heap_of (append_output linked_y 4 ''z'' 8)"

text \<open>Two axis orders of the spec's scenarios.\<close>

definition NCHW :: AxisOrder where
  "NCHW = \<lparr>ndim = 4, axes = [''N'', ''C'', ''H'', ''W'']\<rparr>"

definition CHW :: AxisOrder where
  "CHW = \<lparr>ndim = 3, axes = [''C'', ''H'', ''W'']\<rparr>"

text \<open>
  Binding a constructed variable to a reference; a construction that failed binds nothing.
\<close>

fun place :: "heap \<Rightarrow> var_ref \<Rightarrow> error + Variable \<Rightarrow> heap" where
  "place h r (Inr v) = h\<lparr>vars := (vars h)(r := v)\<rparr>"
| "place h r (Inl e) = h"

text \<open>
  Variable 5 as an image of shape \<^verbatim>\<open>[1, 3, 8, 8]\<close> under \<^verbatim>\<open>NCHW\<close>, as a batch of two such
  images, and as a single plane stack of shape \<^verbatim>\<open>[3, 8, 8]\<close> under \<^verbatim>\<open>CHW\<close>.
\<close>

definition image :: heap where
  "image = place unlinked 5 (Variable_init [1, 3, 8, 8] NCHW)"

definition batch :: heap where
  "batch = place unlinked 5 (Variable_init [2, 3, 8, 8] NCHW)"

definition plane :: heap where
  "plane = place unlinked 5 (Variable_init [3, 8, 8] CHW)"

section \<open>Properties\<close>

lemma ops_upd_op [simp]: "ops (upd_op h r f) = (ops h)(r := f (ops h r))"
  by (simp add: upd_op_def)

lemma vars_upd_op [simp]: "vars (upd_op h r f) = vars h"
  by (simp add: upd_op_def)

lemma ops_upd_var [simp]: "ops (upd_var h r f) = ops h"
  by (simp add: upd_var_def)

lemma vars_upd_var [simp]: "vars (upd_var h r f) = (vars h)(r := f (vars h r))"
  by (simp add: upd_var_def)

lemma scalar_init: "Variable_init [] \<lparr>ndim = 0, axes = []\<rparr> = Inr scalar"
  by (simp add: Variable_init_def Node_init_def scalar_def)

lemma unlinked_simps [simp]:
  "inputs (ops unlinked r) = []" "outputs (ops unlinked r) = []"
  "input_to (vars unlinked v) = {}" "output_from (vars unlinked v) = None"
  by (simp_all add: unlinked_def Operator_init_def Node_init_def scalar_def)

lemma linked_y_from: "output_from (vars linked_y 7) = Some 3"
  by (simp add: linked_y_def append_output_def Let_def)

lemma occupied_x_simps:
  "inputs (ops occupied_x 2) = [(''x'', 5)]" "input_to (vars occupied_x 5) = {2}"
  by (simp_all add: occupied_x_def append_input_def Let_def)

lemma occupied_x_idle: "inputs (ops occupied_x 3) = []"
  by (simp add: occupied_x_def append_input_def Let_def)


lemma doubled_simps:
  "inputs (ops doubled 2) = [(''x'', 5), (''x2'', 5)]" "input_to (vars doubled 5) = {2}"
  by (simp_all add: doubled_def append_input_def Let_def occupied_x_simps)

lemma doubled_name: "get_input_name doubled 2 5 = Inr ''x''"
  by (simp add: get_input_name_def doubled_simps)

lemma two_producers_simps:
  "outputs (ops two_producers 3) = [(''y'', 7)]" "outputs (ops two_producers 4) = [(''z'', 8)]"
  "output_from (vars two_producers 7) = Some 3" "output_from (vars two_producers 8) = Some 4"
  by (simp_all add: two_producers_def linked_y_def append_output_def Let_def)

lemma two_producers_name: "get_output_name two_producers 3 7 = Inr ''y''"
  by (simp add: get_output_name_def two_producers_simps)

lemma image_simps:
  "shape (vars image 5) = [1, 3, 8, 8]" "axis_order (vars image 5) = NCHW"
  by (simp_all add: image_def Variable_init_def NCHW_def Let_def)

lemma batch_simps:
  "shape (vars batch 5) = [2, 3, 8, 8]" "axis_order (vars batch 5) = NCHW"
  by (simp_all add: batch_def Variable_init_def NCHW_def Let_def)

lemma plane_simps:
  "shape (vars plane 5) = [3, 8, 8]" "axis_order (vars plane 5) = CHW"
  by (simp_all add: plane_def Variable_init_def CHW_def Let_def)

lemma image_dict: "shape_dict (vars image 5) = [(''N'', 1), (''C'', 3), (''H'', 8), (''W'', 8)]"
  by (simp add: shape_dict_def get_shape_dict_def image_simps NCHW_def)

lemma batch_dict: "shape_dict (vars batch 5) = [(''N'', 2), (''C'', 3), (''H'', 8), (''W'', 8)]"
  by (simp add: shape_dict_def get_shape_dict_def batch_simps NCHW_def)

lemma plane_dict: "shape_dict (vars plane 5) = [(''C'', 3), (''H'', 8), (''W'', 8)]"
  by (simp add: shape_dict_def get_shape_dict_def plane_simps CHW_def)

subsection \<open>Appending an output\<close>

text \<open>
  C1, as the code has it. The guard of \<^verbatim>\<open>append_output\<close> is
  \<^verbatim>\<open>var.output_from is not None\<close>: the call raises the conflict error exactly when the
  variable has a producer, whichever operator that is (the calling operator included),
  and then leaves the store as it was; it returns when the variable has no producer.
\<close>

theorem append_output_conflict:
  "(output_from (vars h var) \<noteq> None \<longrightarrow> append_output h self nm var = Raise (KeyError AlreadyOutput) h)
   \<and> (output_from (vars h var) = None \<longrightarrow> (\<exists>h'. append_output h self nm var = Return h'))"
  by (simp add: append_output_def Let_def)

theorem append_output_conflict_witness:
  "output_from (vars linked_y 7) \<noteq> None
   \<and> append_output linked_y 3 ''y'' 7 = Raise (KeyError AlreadyOutput) linked_y
   \<and> output_from (vars unlinked 7) = None
   \<and> (\<exists>h'. append_output unlinked 3 ''y'' 7 = Return h')"
  using append_output_conflict [of linked_y 7 3 "''y''"] append_output_conflict [of unlinked 7 3 "''y''"]
  by (simp add: linked_y_from)

text \<open>
  C1 as stated fails: when \<^verbatim>\<open>var.output_from\<close> is the calling operator itself the claim
  promises success, and the code raises. Operator 3 appends variable 7 as output \<^verbatim>\<open>y\<close>
  and then appends it again.
\<close>

theorem append_output_same_operator_counterexample:
  "output_from (vars linked_y 7) = Some 3
   \<and> append_output linked_y 3 ''y'' 7 = Raise (KeyError AlreadyOutput) linked_y"
  by (simp add: linked_y_from append_output_def)

text \<open>
  C5: after a successful \<^verbatim>\<open>op.append_output(nm, v)\<close> the slot \<^verbatim>\<open>nm\<close> of \<^verbatim>\<open>op.outputs\<close>
  holds \<^verbatim>\<open>v\<close> and \<^verbatim>\<open>v.output_from\<close> is \<^verbatim>\<open>op\<close>; an \<^verbatim>\<open>append_output\<close> of \<^verbatim>\<open>v\<close> by a
  different operator, under any slot name, then raises the conflict error and leaves
  the store, hence the first linkage, as it was.
\<close>

theorem append_output_then_conflict:
  assumes "append_output h self nm v = Return h1" and "other \<noteq> self"
  shows "map_of (outputs (ops h1 self)) nm = Some v \<and> output_from (vars h1 v) = Some self
     \<and> (\<exists>h2. append_output h1 other nm2 v = Raise (KeyError AlreadyOutput) h2 \<and> h2 = h1
           \<and> output_from (vars h2 v) = Some self \<and> map_of (outputs (ops h2 self)) nm = Some v)"
  using assms by (auto simp add: append_output_def Let_def update_conv' split: if_splits)

theorem append_output_then_conflict_witness:
  "append_output unlinked 3 ''y'' 7 = Return linked_y \<and> (4::nat) \<noteq> 3
   \<and> map_of (outputs (ops linked_y 3)) ''y'' = Some 7 \<and> output_from (vars linked_y 7) = Some 3
   \<and> (\<exists>h2. append_output linked_y 4 ''w'' 7 = Raise (KeyError AlreadyOutput) h2 \<and> h2 = linked_y
           \<and> output_from (vars h2 7) = Some 3 \<and> map_of (outputs (ops h2 3)) ''y'' = Some 7)"
proof -
  have a: "append_output unlinked 3 ''y'' 7 = Return linked_y"
    by (simp add: linked_y_def append_output_def Let_def)
  have b: "(4::nat) \<noteq> 3" by simp
  show ?thesis using a b append_output_then_conflict [OF a b, of "''w''"] by simp
qed

subsection \<open>Appending an input\<close>

text \<open>
  C6: \<^verbatim>\<open>op.append_input(nm, var)\<close> always returns; afterwards the slot \<^verbatim>\<open>nm\<close> of
  \<^verbatim>\<open>op.inputs\<close> holds \<^verbatim>\<open>var\<close> and \<^verbatim>\<open>op\<close> is in \<^verbatim>\<open>var.input_to\<close>. The \<^verbatim>\<open>input_to\<close> set
  of every other variable is as before: in particular a different variable that held
  the slot keeps \<^verbatim>\<open>op\<close> in its \<^verbatim>\<open>input_to\<close>. The call writes nothing else:
  \<^verbatim>\<open>var.input_to\<close> is the old set with \<^verbatim>\<open>op\<close> added, \<^verbatim>\<open>op.inputs\<close> is the old dictionary
  with the one slot assigned, and every other operator, every other variable, the
  outputs of \<^verbatim>\<open>op\<close> and the other fields of \<^verbatim>\<open>var\<close> are as they were.
\<close>

theorem append_input_overwrites:
  "\<exists>h'. append_input h self nm var = Return h'
      \<and> map_of (inputs (ops h' self)) nm = Some var
      \<and> self \<in> input_to (vars h' var)
      \<and> (\<forall>w. w \<noteq> var \<longrightarrow> input_to (vars h' w) = input_to (vars h w))
      \<and> input_to (vars h' var) = insert self (input_to (vars h var))
      \<and> map_of (inputs (ops h' self)) = (map_of (inputs (ops h self)))(nm \<mapsto> var)
      \<and> inputs (ops h' self) = AList.update nm var (inputs (ops h self))
      \<and> outputs (ops h' self) = outputs (ops h self)
      \<and> (\<forall>p. p \<noteq> self \<longrightarrow> ops h' p = ops h p)
      \<and> (\<forall>w. w \<noteq> var \<longrightarrow> vars h' w = vars h w)
      \<and> output_from (vars h' var) = output_from (vars h var)
      \<and> shape (vars h' var) = shape (vars h var)
      \<and> axis_order (vars h' var) = axis_order (vars h var)"
  by (simp add: append_input_def Let_def update_conv')

theorem append_input_overwrites_witness:
  "map_of (inputs (ops occupied_x 2)) ''x'' = Some 5 \<and> 2 \<in> input_to (vars occupied_x 5) \<and> (5::nat) \<noteq> 6
   \<and> (\<exists>h'. append_input occupied_x 2 ''x'' 6 = Return h'
      \<and> map_of (inputs (ops h' 2)) ''x'' = Some 6
      \<and> 2 \<in> input_to (vars h' 6)
      \<and> input_to (vars h' 5) = input_to (vars occupied_x 5)
      \<and> 2 \<in> input_to (vars h' 5)
      \<and> inputs (ops h' 2) = [(''x'', 6)])
   \<and> (3::nat) \<noteq> 2
   \<and> (\<exists>h'. append_input occupied_x 3 ''a'' 5 = Return h'
      \<and> input_to (vars h' 5) = {2, 3}
      \<and> inputs (ops h' 3) = [(''a'', 5)]
      \<and> inputs (ops h' 2) = [(''x'', 5)])"
  using append_input_overwrites [of occupied_x 2 "''x''" 6]
    append_input_overwrites [of occupied_x 3 "''a''" 5]
  by (auto simp add: occupied_x_simps occupied_x_idle)

subsection \<open>Reverse lookup\<close>

lemma for_items_Inl: "for_items xs var b = Inl r \<Longrightarrow> var \<notin> snd ` set xs \<and> (r = None \<longleftrightarrow> xs = [] \<and> b = None)"
  by (induction xs var b rule: for_items.induct) (auto split: if_splits)

lemma for_items_Inr: "for_items xs var b = Inr nm \<Longrightarrow> (nm, var) \<in> set xs"
  by (induction xs var b rule: for_items.induct) (auto split: if_splits)

lemma for_items_absent:
  "var \<notin> snd ` set xs \<Longrightarrow> for_items xs var b = Inl (if xs = [] then b else Some (fst (last xs)))"
  by (induction xs var b rule: for_items.induct) auto

lemma for_items_Inr_map_of: "for_items xs var b = Inr nm \<Longrightarrow> \<exists>v. map_of xs nm = Some v"
  by (metis for_items_Inr weak_map_of_SomeI)

lemma for_items_Inr_distinct:
  "for_items xs var b = Inr nm \<Longrightarrow> distinct (map fst xs) \<Longrightarrow> map_of xs nm = Some var"
  by (simp add: for_items_Inr)

lemma get_input_name_Inr:
  "get_input_name h self var = Inr nm \<Longrightarrow> for_items (inputs (ops h self)) var None = Inr nm"
  by (auto simp add: get_input_name_def split: sum.splits option.splits)

lemma get_output_name_Inr:
  "get_output_name h self var = Inr nm \<Longrightarrow> for_items (outputs (ops h self)) var None = Inr nm"
  by (auto simp add: get_output_name_def split: sum.splits option.splits)

lemma get_output_name_Inl:
  "get_output_name h self var = Inl e \<Longrightarrow> e = UnboundLocalError \<or> e = KeyError NotOutput"
  by (auto simp add: get_output_name_def split: sum.splits option.splits)

lemma remove_input_found:
  assumes "get_input_name h self var = Inr nm"
  shows "remove_input h self var =
     (let h1 = upd_op h self (\<lambda>p. p\<lparr>inputs := AList.delete nm (inputs p)\<rparr>)
      in if self \<in> input_to (vars h var)
         then Return (upd_var h1 var (\<lambda>v. v\<lparr>input_to := input_to v - {self}\<rparr>))
         else Raise (KeyError MissingKey) h1)"
proof -
  obtain v where "map_of (inputs (ops h self)) nm = Some v"
    using for_items_Inr_map_of [OF get_input_name_Inr [OF assms]] by blast
  then show ?thesis using assms
    by (simp add: remove_input_def dict_pop_def Let_def)
qed

lemma remove_output_found:
  assumes "get_output_name h self var = Inr nm"
  shows "\<exists>popped. map_of (outputs (ops h self)) nm = Some popped \<and>
     remove_output h self var =
       Return (upd_var (upd_op h self (\<lambda>p. p\<lparr>outputs := AList.delete nm (outputs p)\<rparr>))
                 popped (\<lambda>v. v\<lparr>output_from := None\<rparr>))"
proof -
  obtain v where "map_of (outputs (ops h self)) nm = Some v"
    using for_items_Inr_map_of [OF get_output_name_Inr [OF assms]] by blast
  then show ?thesis using assms
    by (simp add: remove_output_def dict_pop_def Let_def)
qed

lemma get_input_name_absent:
  assumes "var \<notin> snd ` set (inputs (ops h self))" "inputs (ops h self) \<noteq> []"
  shows "get_input_name h self var = Inl (KeyError NotInput)"
  using assms by (simp add: get_input_name_def for_items_absent)

lemma get_output_name_absent:
  assumes "var \<notin> snd ` set (outputs (ops h self))" "outputs (ops h self) \<noteq> []"
  shows "get_output_name h self var = Inl (KeyError NotOutput)"
  using assms by (simp add: get_output_name_def for_items_absent)

text \<open>
  C3 at an operator without inputs and outputs (operator 2 of the unlinked store) and a
  variable that is registered nowhere: the \<^verbatim>\<open>else\<close> branch of the lookup formats the
  loop variable \<^verbatim>\<open>name\<close>, which was never bound, so the six methods stop with Python's
  \<^verbatim>\<open>UnboundLocalError\<close> and not with the \<^verbatim>\<open>KeyError\<close> the branch is written to raise.
  (With at least one slot present the lookups do raise the \<^verbatim>\<open>KeyError\<close>:
  \<open>get_input_name_absent\<close>, \<open>get_output_name_absent\<close>.)
\<close>

theorem lookup_on_empty_operator:
  "get_input_name unlinked 2 5 = Inl UnboundLocalError
   \<and> get_output_name unlinked 2 5 = Inl UnboundLocalError
   \<and> remove_input unlinked 2 5 = Raise UnboundLocalError unlinked
   \<and> remove_output unlinked 2 5 = Raise UnboundLocalError unlinked
   \<and> replace_input unlinked 2 5 6 = Raise UnboundLocalError unlinked
   \<and> replace_output unlinked 2 5 6 = Raise UnboundLocalError unlinked"
  by (simp add: get_input_name_def get_output_name_def remove_input_def remove_output_def
      replace_input_def replace_output_def)

subsection \<open>Constructors\<close>

text \<open>
  C10: the \<^verbatim>\<open>Node\<close> constructor installs an empty mapping when no parameters are given,
  but \<^verbatim>\<open>Operator.__init__\<close> then assigns the raw argument, so an Operator built without
  parameters has \<^verbatim>\<open>parameters = None\<close>, and a membership test or a subscription on it
  raises \<^verbatim>\<open>TypeError\<close>. A Variable whose construction succeeds has the empty mapping,
  where a key is reported absent.
\<close>

theorem constructors_parameters:
  "parameters (Node_init [] None) = Some Map.empty
   \<and> parameters (Operator_init nm None) = None
   \<and> py_contains (parameters (Operator_init nm None)) k = Inl TypeError
   \<and> py_getitem (parameters (Operator_init nm None)) k = Inl TypeError
   \<and> (\<forall>v. Variable_init sh ao = Inr v \<longrightarrow>
         parameters v = Some Map.empty \<and> py_contains (parameters v) k = Inr False
         \<and> Variable_name v = Inr (PyStr ''''))"
  by (auto simp add: Node_init_def Operator_init_def Variable_init_def Let_def py_contains_def
      py_getitem_def Variable_name_def split: if_splits)

theorem constructors_parameters_witness:
  "Variable_init [] \<lparr>ndim = 0, axes = []\<rparr> = Inr scalar
   \<and> parameters scalar = Some Map.empty \<and> py_contains (parameters scalar) ''name'' = Inr False
   \<and> Variable_name scalar = Inr (PyStr '''')
   \<and> parameters (Operator_init ''conv'' None) = None
   \<and> py_getitem (parameters (Operator_init ''conv'' None)) ''name'' = Inl TypeError"
  using constructors_parameters [of "''conv''" "''name''" "[]" "\<lparr>ndim = 0, axes = []\<rparr>"] scalar_init
  by (simp add: py_contains_def py_getitem_def)

subsection \<open>Removing and replacing an input\<close>




text \<open>
  C4 at a variable that occupies two input slots of one operator. Operator 2 holds
  variable 5 in the slots \<^verbatim>\<open>x\<close> and \<^verbatim>\<open>x2\<close>, and is in the \<^verbatim>\<open>input_to\<close> of variable 5.
  \<^verbatim>\<open>remove_input\<close> deletes the slot \<^verbatim>\<open>x\<close> only, yet removes operator 2 from the
  \<^verbatim>\<open>input_to\<close> set: variable 5 is still an input of operator 2 (slot \<^verbatim>\<open>x2\<close>) and
  operator 2 is not in its \<^verbatim>\<open>input_to\<close>. \<^verbatim>\<open>replace_input\<close> by another variable ends in
  the same state for variable 5.
\<close>

theorem remove_input_shared_variable:
  "inputs (ops doubled 2) = [(''x'', 5), (''x2'', 5)] \<and> input_to (vars doubled 5) = {2}
   \<and> raised (remove_input doubled 2 5) = None
   \<and> inputs (ops (heap_of (remove_input doubled 2 5)) 2) = [(''x2'', 5)]
   \<and> 2 \<notin> input_to (vars (heap_of (remove_input doubled 2 5)) 5)
   \<and> raised (replace_input doubled 2 5 6) = None
   \<and> inputs (ops (heap_of (replace_input doubled 2 5 6)) 2) = [(''x2'', 5), (''x'', 6)]
   \<and> 2 \<notin> input_to (vars (heap_of (replace_input doubled 2 5 6)) 5)"
  by (simp add: replace_input_def remove_input_found doubled_name append_input_def Let_def
      doubled_simps)

text \<open>
  What does hold of the invariant: \<^verbatim>\<open>append_input\<close>, \<^verbatim>\<open>append_output\<close>, \<^verbatim>\<open>remove_output\<close>
  and \<^verbatim>\<open>replace_output\<close> preserve it, however they end; \<^verbatim>\<open>remove_input\<close> and
  \<^verbatim>\<open>replace_input\<close> preserve it when the variable occupies no other slot of the
  operator than the one found. The store with variable 5 in two slots satisfies it, and
  the store after \<^verbatim>\<open>remove_input\<close> does not.
\<close>

lemma set_update_cases:
  "(k', v') \<in> set (AList.update k v d) \<Longrightarrow> (k', v') = (k, v) \<or> (k', v') \<in> set d"
  by (induction d) (auto split: if_splits)

lemma set_delete_cases:
  "(k', v') \<in> set (AList.delete k d) \<Longrightarrow> k' \<noteq> k \<and> (k', v') \<in> set d"
  by (induction d) (auto split: if_splits)

lemma append_input_consistent:
  assumes "inputs_consistent h"
  shows "inputs_consistent (heap_of (append_input h self nm var))"
  using assms unfolding inputs_consistent_def append_input_def Let_def
  by (auto dest: set_update_cases)

lemma append_output_consistent:
  assumes "inputs_consistent h"
  shows "inputs_consistent (heap_of (append_output h self nm var))"
  using assms unfolding inputs_consistent_def append_output_def Let_def
  by auto

lemma remove_output_consistent:
  assumes "inputs_consistent h"
  shows "inputs_consistent (heap_of (remove_output h self var))"
proof (cases "get_output_name h self var")
  case (Inl e)
  then show ?thesis using assms by (simp add: remove_output_def)
next
  case (Inr nm)
  then show ?thesis using assms remove_output_found [OF Inr]
    unfolding inputs_consistent_def by (auto split: if_splits)
qed

lemma replace_output_consistent:
  assumes "inputs_consistent h"
  shows "inputs_consistent (heap_of (replace_output h self v_old v_new))"
proof (cases "get_output_name h self v_old")
  case (Inl e)
  then show ?thesis using assms by (simp add: replace_output_def)
next
  case (Inr nm)
  obtain h1 where r: "remove_output h self v_old = Return h1"
    using remove_output_found [OF Inr] by blast
  have "inputs_consistent h1"
    using remove_output_consistent [OF assms, of self v_old] r by simp
  then show ?thesis
    using Inr r append_output_consistent [of h1 self nm v_new]
    by (simp add: replace_output_def)
qed

lemma remove_input_consistent:
  assumes "inputs_consistent h"
    and "get_input_name h self var = Inr nm"
    and "\<forall>nm'. (nm', var) \<in> set (inputs (ops h self)) \<longrightarrow> nm' = nm"
  shows "inputs_consistent (heap_of (remove_input h self var))"
  using assms unfolding inputs_consistent_def
  by (auto simp add: remove_input_found Let_def dest!: set_delete_cases)

lemma replace_input_consistent:
  assumes "inputs_consistent h"
    and "get_input_name h self v_old = Inr nm"
    and "\<forall>nm'. (nm', v_old) \<in> set (inputs (ops h self)) \<longrightarrow> nm' = nm"
  shows "inputs_consistent (heap_of (replace_input h self v_old v_new))"
proof (cases "remove_input h self v_old")
  case (Return h1)
  have "inputs_consistent h1"
    using remove_input_consistent [OF assms] Return by simp
  then show ?thesis
    using assms(2) Return append_input_consistent [of h1 self nm v_new]
    by (simp add: replace_input_def)
next
  case (Raise e h1)
  have "inputs_consistent h1"
    using remove_input_consistent [OF assms] Raise by simp
  then show ?thesis using assms(2) Raise by (simp add: replace_input_def)
qed

lemma unlinked_consistent: "inputs_consistent unlinked"
  by (simp add: inputs_consistent_def)

lemma doubled_consistent: "inputs_consistent doubled"
  unfolding doubled_def occupied_x_def
  by (intro append_input_consistent unlinked_consistent)

lemma doubled_broken: "\<not> inputs_consistent (heap_of (remove_input doubled 2 5))"
proof
  assume "inputs_consistent (heap_of (remove_input doubled 2 5))"
  then have "(''x2'', 5) \<in> set (inputs (ops (heap_of (remove_input doubled 2 5)) 2))
      \<longrightarrow> 2 \<in> input_to (vars (heap_of (remove_input doubled 2 5)) 5)"
    unfolding inputs_consistent_def by blast
  then show False
    by (simp add: remove_input_found doubled_name doubled_simps Let_def)
qed

subsection \<open>Replacing an output\<close>

text \<open>
  C2 as stated fails on the conflict error: \<^verbatim>\<open>replace_output\<close> has removed the old
  output before \<^verbatim>\<open>append_output\<close> checks the new one. Operator 3 produces variable 7,
  operator 4 produces variable 8; operator 3 replacing 7 by 8 raises the conflict
  error, and afterwards operator 3 has lost its slot and variable 7 its producer.
\<close>

theorem replace_output_partial_counterexample:
  "raised (replace_output two_producers 3 7 8) = Some (KeyError AlreadyOutput)
   \<and> outputs (ops two_producers 3) = [(''y'', 7)]
   \<and> outputs (ops (heap_of (replace_output two_producers 3 7 8)) 3) = []
   \<and> output_from (vars two_producers 7) = Some 3
   \<and> output_from (vars (heap_of (replace_output two_producers 3 7 8)) 7) = None"
  by (simp add: replace_output_def remove_output_def two_producers_name dict_pop_def
      append_output_def Let_def two_producers_simps)

text \<open>
  C2, as the code has it. A failed \<^verbatim>\<open>replace_output(old, new)\<close> is one of two cases.
  Either the lookup of \<^verbatim>\<open>old\<close> failed, and the store is exactly as before. Or the
  conflict error was raised because \<^verbatim>\<open>new\<close> has a producer: then the store is the one
  that \<^verbatim>\<open>remove_output(old)\<close> leaves (the slot of \<^verbatim>\<open>old\<close> is gone from the outputs, and
  \<^verbatim>\<open>old.output_from\<close> is \<^verbatim>\<open>None\<close>, slot names being unique), and only
  \<^verbatim>\<open>new.output_from\<close> is as before.
\<close>

theorem replace_output_failure:
  assumes "replace_output h self v_old v_new = Raise e h'"
  shows "((e = UnboundLocalError \<or> e = KeyError NotOutput) \<and> h' = h
            \<and> get_output_name h self v_old = Inl e)
       \<or> (e = KeyError AlreadyOutput
            \<and> remove_output h self v_old = Return h'
            \<and> (\<exists>nm. get_output_name h self v_old = Inr nm
                  \<and> outputs (ops h' self) = AList.delete nm (outputs (ops h self)))
            \<and> outputs (ops h' self) \<noteq> outputs (ops h self)
            \<and> output_from (vars h' v_new) = output_from (vars h v_new)
            \<and> output_from (vars h v_new) \<noteq> None
            \<and> (distinct (map fst (outputs (ops h self))) \<longrightarrow> output_from (vars h' v_old) = None))"
proof (cases "get_output_name h self v_old")
  case (Inl e')
  then show ?thesis using assms get_output_name_Inl [OF Inl]
    by (auto simp add: replace_output_def)
next
  case (Inr nm)
  obtain popped where p: "map_of (outputs (ops h self)) nm = Some popped"
    and r: "remove_output h self v_old =
       Return (upd_var (upd_op h self (\<lambda>p. p\<lparr>outputs := AList.delete nm (outputs p)\<rparr>))
                 popped (\<lambda>v. v\<lparr>output_from := None\<rparr>))"
    using remove_output_found [OF Inr] by blast
  have ne: "AList.delete nm (outputs (ops h self)) \<noteq> outputs (ops h self)"
    using p by (metis delete_conv' fun_upd_same option.distinct(1))
  have d: "distinct (map fst (outputs (ops h self))) \<Longrightarrow> popped = v_old"
    using for_items_Inr_distinct [OF get_output_name_Inr [OF Inr]] p by simp
  show ?thesis using assms Inr r ne d
    by (auto simp add: replace_output_def append_output_def Let_def split: if_splits)
qed

theorem replace_output_failure_witness:
  "replace_output two_producers 3 7 8 = Raise (KeyError AlreadyOutput) (heap_of (replace_output two_producers 3 7 8))
   \<and> remove_output two_producers 3 7 = Return (heap_of (replace_output two_producers 3 7 8))
   \<and> output_from (vars (heap_of (replace_output two_producers 3 7 8)) 8) = Some 4
   \<and> distinct (map fst (outputs (ops two_producers 3)))
   \<and> output_from (vars (heap_of (replace_output two_producers 3 7 8)) 7) = None
   \<and> replace_output two_producers 3 8 7 = Raise (KeyError NotOutput) two_producers"
proof -
  have a: "replace_output two_producers 3 7 8 = Raise (KeyError AlreadyOutput) (heap_of (replace_output two_producers 3 7 8))"
    by (simp add: replace_output_def remove_output_def two_producers_name dict_pop_def
      append_output_def Let_def two_producers_simps)
  have b: "replace_output two_producers 3 8 7 = Raise (KeyError NotOutput) two_producers"
    by (simp add: replace_output_def get_output_name_def two_producers_simps)
  show ?thesis
    using a b replace_output_failure [OF a] replace_output_failure [OF b]
    by (auto simp add: two_producers_simps)
qed

subsection \<open>Changing the axis order\<close>

lemma dropped_axes_ok_iff:
  "dropped_axes_ok d new_axes \<longleftrightarrow> (\<forall>(axis, sz) \<in> set d. axis \<in> set new_axes \<or> sz = 1)"
  by (induction d new_axes rule: dropped_axes_ok.induct) auto

text \<open>
  C8: \<^verbatim>\<open>v.change_axis_order(new_order)\<close> raises the assertion error, leaving the store
  (hence \<^verbatim>\<open>v.shape\<close> and \<^verbatim>\<open>v.axis_order\<close>) as it was, if some axis of the current
  axis-to-size mapping is absent from the axes of \<^verbatim>\<open>new_order\<close> and has a size other than
  1. Otherwise it returns, \<^verbatim>\<open>v.axis_order\<close> is \<^verbatim>\<open>new_order\<close> and \<^verbatim>\<open>v.shape\<close> lists, for each
  axis of \<^verbatim>\<open>new_order\<close> in order, the size the current mapping gives it, or 1 if it gives
  none. This holds whatever mapping \<^verbatim>\<open>get_shape_dict\<close> computes.
\<close>

theorem change_axis_order_result:
  "(if \<exists>(axis, sz) \<in> set (shape_dict (vars h self)). axis \<notin> set (axes new_order) \<and> sz \<noteq> 1
    then change_axis_order h self new_order = Raise AssertionError h
    else (\<exists>h'. change_axis_order h self new_order = Return h'
            \<and> axis_order (vars h' self) = new_order
            \<and> shape (vars h' self) =
                map (\<lambda>axis. case map_of (shape_dict (vars h self)) axis of
                               Some sz \<Rightarrow> sz | None \<Rightarrow> 1) (axes new_order)))"
  by (auto simp add: change_axis_order_def Let_def dropped_axes_ok_iff dict_get_def)

theorem change_axis_order_result_witness:
  "change_axis_order batch 5 CHW = Raise AssertionError batch
   \<and> shape (vars batch 5) = [2, 3, 8, 8]
   \<and> (\<exists>h'. change_axis_order image 5 CHW = Return h'
         \<and> axis_order (vars h' 5) = CHW \<and> shape (vars h' 5) = [3, 8, 8])"
  using change_axis_order_result [of batch 5 CHW] change_axis_order_result [of image 5 CHW]
  by (simp add: batch_dict image_dict batch_simps CHW_def)

text \<open>
  The dictionary built by \<^const>\<open>get_shape_dict\<close>: its keys, their uniqueness, and its
  entries when the axes are distinct.
\<close>

lemma fold_update_keys:
  "fst ` set (fold (\<lambda>(axis, sz) d. AList.update axis sz d) xs acc) = fst ` set acc \<union> fst ` set xs"
proof (induction xs arbitrary: acc)
  case Nil
  then show ?case by simp
next
  case (Cons x xs)
  obtain k v where x: "x = (k, v)" by (cases x)
  have "fst ` set (AList.update k v acc) = insert k (fst ` set acc)"
    by (simp add: dom_update)
  then show ?case using Cons.IH [of "AList.update k v acc"] x by auto
qed

lemma fold_update_distinct:
  "distinct (map fst acc) \<Longrightarrow>
   distinct (map fst (fold (\<lambda>(axis, sz) d. AList.update axis sz d) xs acc))"
  by (induction xs arbitrary: acc) (auto simp add: distinct_update)

lemma fold_update_zip_map:
  "map_of (fold (\<lambda>(axis, sz) d. AList.update axis sz d) (zip ks (map f ks)) acc) k =
     (if k \<in> set ks then Some (f k) else map_of acc k)"
  by (induction ks arbitrary: acc) (auto simp add: update_conv')

lemma update_fresh: "k \<notin> fst ` set d \<Longrightarrow> AList.update k v d = d @ [(k, v)]"
  by (induction d) auto

lemma fold_update_fresh:
  "distinct (map fst xs) \<Longrightarrow> fst ` set acc \<inter> fst ` set xs = {} \<Longrightarrow>
   fold (\<lambda>(axis, sz) d. AList.update axis sz d) xs acc = acc @ xs"
proof (induction xs arbitrary: acc)
  case Nil
  then show ?case by simp
next
  case (Cons x xs)
  obtain k v where x: "x = (k, v)" by (cases x)
  have fresh: "k \<notin> fst ` set acc" using Cons.prems(2) x by auto
  have "fold (\<lambda>(axis, sz) d. AList.update axis sz d) xs (acc @ [(k, v)]) = (acc @ [(k, v)]) @ xs"
  proof (rule Cons.IH)
    show "distinct (map fst xs)" using Cons.prems(1) by simp
    show "fst ` set (acc @ [(k, v)]) \<inter> fst ` set xs = {}"
      using Cons.prems x by auto
  qed
  then show ?case using x fresh by (simp add: update_fresh)
qed

lemma shape_dict_keys: "(axis, sz) \<in> set (shape_dict v) \<Longrightarrow> axis \<in> set (axes (axis_order v))"
proof -
  assume "(axis, sz) \<in> set (shape_dict v)"
  then have "axis \<in> fst ` set (shape_dict v)" by force
  then have "axis \<in> fst ` set (zip (axes (axis_order v)) (shape v))"
    by (simp add: shape_dict_def get_shape_dict_def fold_update_keys)
  then show ?thesis by (auto dest: set_zip_leftD)
qed

lemma shape_dict_distinct_axes:
  assumes "distinct (axes (axis_order v))" "length (shape v) = length (axes (axis_order v))"
  shows "shape_dict v = zip (axes (axis_order v)) (shape v)"
proof -
  have "distinct (map fst (zip (axes (axis_order v)) (shape v)))"
    using assms by simp
  then show ?thesis
    by (simp add: shape_dict_def get_shape_dict_def fold_update_fresh)
qed

lemma read_back:
  "distinct ks \<Longrightarrow> length vs = length ks \<Longrightarrow> map (\<lambda>k. dict_get (zip ks vs) k d) ks = vs"
proof (induction ks arbitrary: vs)
  case Nil
  then show ?case by simp
next
  case (Cons k ks)
  then obtain w ws where vs: "vs = w # ws" by (cases vs) auto
  have len: "length ws = length ks" using Cons.prems(2) vs by simp
  have "dict_get ((k, w) # zip ks ws) x d = dict_get (zip ks ws) x d" if "x \<in> set ks" for x
    using that Cons.prems(1) by (auto simp add: dict_get_def)
  then have "map (\<lambda>x. dict_get ((k, w) # zip ks ws) x d) ks = map (\<lambda>x. dict_get (zip ks ws) x d) ks"
    by simp
  also have "\<dots> = ws" using Cons.IH [OF _ len] Cons.prems(1) by simp
  finally have tl: "map (\<lambda>x. dict_get ((k, w) # zip ks ws) x d) ks = ws" .
  have hd: "dict_get ((k, w) # zip ks ws) k d = w" by (simp add: dict_get_def)
  show ?case unfolding vs using tl hd by simp
qed

text \<open>
  C9: let variable \<^verbatim>\<open>v\<close> be under axis order \<^verbatim>\<open>A\<close>, a trait with pairwise distinct axes
  whose \<^verbatim>\<open>ndim\<close> is the number of its axes, with one shape entry per axis (the assertion
  of the \<^verbatim>\<open>Variable\<close> constructor), and let every axis of \<^verbatim>\<open>A\<close> be an axis of \<^verbatim>\<open>B\<close>. Then
  \<^verbatim>\<open>change_axis_order(B)\<close> returns, \<^verbatim>\<open>change_axis_order(A)\<close> after it returns as well (no
  axis of a size other than 1 is dropped in either direction), and shape and axis
  order, indeed the whole store, are as they were at the start.
\<close>

theorem change_axis_order_round_trip:
  assumes wf: "distinct (axes A)" "ndim A = length (axes A)"
    and var: "axis_order (vars h v) = A" "ndim A = length (shape (vars h v))"
    and sub: "set (axes A) \<subseteq> set (axes B)"
  shows "\<exists>h1 h2. change_axis_order h v B = Return h1 \<and> change_axis_order h1 v A = Return h2
           \<and> shape (vars h2 v) = shape (vars h v) \<and> axis_order (vars h2 v) = axis_order (vars h v)
           \<and> h2 = h"
proof -
  let ?d = "shape_dict (vars h v)"
  let ?f = "\<lambda>axis. dict_get ?d axis 1"
  let ?v1 = "(vars h v)\<lparr>axis_order := B, shape := map ?f (axes B)\<rparr>"
  let ?h1 = "upd_var h v (\<lambda>x. x\<lparr>axis_order := B, shape := map ?f (axes B)\<rparr>)"
  have dA: "?d = zip (axes A) (shape (vars h v))"
    using wf var by (simp add: shape_dict_distinct_axes)
  have ok1: "dropped_axes_ok ?d (axes B)"
    using sub var(1) by (auto simp add: dropped_axes_ok_iff dest: shape_dict_keys)
  then have step1: "change_axis_order h v B = Return ?h1"
    by (simp add: change_axis_order_def Let_def)
  have v1: "vars ?h1 v = ?v1" by simp
  have d1: "shape_dict ?v1 =
      fold (\<lambda>(axis, sz) d. AList.update axis sz d) (zip (axes B) (map ?f (axes B))) []"
    by (simp add: shape_dict_def get_shape_dict_def)
  have m1: "map_of (shape_dict ?v1) k = (if k \<in> set (axes B) then Some (?f k) else None)" for k
    unfolding d1 by (simp add: fold_update_zip_map)
  have dist1: "distinct (map fst (shape_dict ?v1))"
    unfolding d1 by (rule fold_update_distinct) simp
  have absent: "k \<notin> set (axes A) \<Longrightarrow> ?f k = 1" for k
  proof -
    assume "k \<notin> set (axes A)"
    then have "map_of ?d k = None"
      using var(1) by (metis shape_dict_keys map_of_SomeD not_Some_eq)
    then show ?thesis by (simp add: dict_get_def)
  qed
  have ok2: "dropped_axes_ok (shape_dict ?v1) (axes A)"
  proof -
    have "k \<in> set (axes A) \<or> s = 1" if "(k, s) \<in> set (shape_dict ?v1)" for k s
    proof -
      from that dist1 have "map_of (shape_dict ?v1) k = Some s" by simp
      then have "s = ?f k" using m1 [of k] by (simp split: if_splits)
      then show ?thesis using absent by blast
    qed
    then show ?thesis by (auto simp add: dropped_axes_ok_iff)
  qed
  have rt: "map (\<lambda>axis. dict_get (shape_dict ?v1) axis 1) (axes A) = shape (vars h v)"
  proof -
    have "dict_get (shape_dict ?v1) k 1 = ?f k" if "k \<in> set (axes A)" for k
      using that sub m1 [of k] by (auto simp add: dict_get_def)
    then have "map (\<lambda>axis. dict_get (shape_dict ?v1) axis 1) (axes A) = map ?f (axes A)"
      by simp
    also have "\<dots> = shape (vars h v)"
      unfolding dA using wf var by (simp add: read_back)
    finally show ?thesis .
  qed
  have step2: "change_axis_order ?h1 v A =
      Return (upd_var ?h1 v (\<lambda>x. x\<lparr>axis_order := A, shape := shape (vars h v)\<rparr>))"
    using ok2 rt unfolding change_axis_order_def Let_def v1 by simp
  have same: "upd_var ?h1 v (\<lambda>x. x\<lparr>axis_order := A, shape := shape (vars h v)\<rparr>) = h"
  proof -
    have "(vars h v)\<lparr>axis_order := A\<rparr> = vars h v"
      unfolding var(1) [symmetric] by simp
    then show ?thesis by (simp add: upd_var_def)
  qed
  show ?thesis using step1 step2 same by simp
qed

theorem change_axis_order_round_trip_witness:
  "distinct (axes CHW) \<and> ndim CHW = length (axes CHW)
   \<and> axis_order (vars plane 5) = CHW \<and> ndim CHW = length (shape (vars plane 5))
   \<and> set (axes CHW) \<subseteq> set (axes NCHW)
   \<and> (\<exists>h1 h2. change_axis_order plane 5 NCHW = Return h1 \<and> change_axis_order h1 5 CHW = Return h2
           \<and> shape (vars h1 5) = [1, 3, 8, 8]
           \<and> shape (vars h2 5) = [3, 8, 8] \<and> axis_order (vars h2 5) = CHW)"
proof -
  have a: "distinct (axes CHW)" "ndim CHW = length (axes CHW)" by (simp_all add: CHW_def)
  have b: "axis_order (vars plane 5) = CHW" "ndim CHW = length (shape (vars plane 5))"
    by (simp_all add: plane_simps CHW_def)
  have c: "set (axes CHW) \<subseteq> set (axes NCHW)" by (simp add: CHW_def NCHW_def)
  have s: "change_axis_order plane 5 NCHW =
     Return (upd_var plane 5 (\<lambda>x. x\<lparr>axis_order := NCHW, shape := [1, 3, 8, 8]\<rparr>))"
    by (simp add: change_axis_order_def plane_dict Let_def NCHW_def dict_get_def)
  show ?thesis
    using a b c s change_axis_order_round_trip [OF a b c]
    by (auto simp add: plane_simps)
qed

end
